theory Spec2Isabelle
  imports Main
begin

section \<open>Errors and HTTP responses\<close>

text \<open>
  Everything the service layer can throw. \<open>AppError message statusCode code\<close> is the
  class of \<^verbatim>\<open>error.middleware.ts\<close>; the Prisma errors are the two classes the global
  handler tests with \<^verbatim>\<open>instanceof\<close>; \<open>NamedError name\<close> is any other exception,
  identified by its \<^verbatim>\<open>name\<close> property (\<^verbatim>\<open>JsonWebTokenError\<close>,
  \<^verbatim>\<open>TokenExpiredError\<close>, \<^verbatim>\<open>TypeError\<close>, ...).
\<close>

datatype error =
    AppError string nat string
  | PrismaClientKnownRequestError string
  | PrismaClientValidationError
  | NamedError string

text \<open>The JSON error body written by \<^verbatim>\<open>errorResponse\<close>, with its HTTP status.\<close>

record Response =
  status :: nat
  code :: string
  message :: string

text \<open>\<^verbatim>\<open>code || 'ERROR'\<close>: an empty code is falsy in JavaScript.\<close>

definition errorResponse :: "string \<Rightarrow> nat \<Rightarrow> string \<Rightarrow> Response" where
  "errorResponse msg statusCode c =
     \<lparr>status = statusCode, code = (if c = [] then ''ERROR'' else c), message = msg\<rparr>"

fun errorHandler :: "error \<Rightarrow> Response" where
  "errorHandler (PrismaClientKnownRequestError c) =
     (if c = ''P2002'' then errorResponse ''Unique constraint violation'' 409 ''DUPLICATE_ENTRY''
      else if c = ''P2025'' then errorResponse ''Record not found'' 404 ''NOT_FOUND''
      else errorResponse ''Internal server error'' 500 ''INTERNAL_ERROR'')"
| "errorHandler PrismaClientValidationError =
     errorResponse ''Invalid data provided'' 400 ''VALIDATION_ERROR''"
| "errorHandler (AppError msg statusCode c) = errorResponse msg statusCode c"
| "errorHandler (NamedError n) =
     (if n = ''JsonWebTokenError'' then errorResponse ''Invalid token'' 401 ''TOKEN_INVALID''
      else if n = ''TokenExpiredError'' then errorResponse ''Token expired'' 401 ''TOKEN_EXPIRED''
      else errorResponse ''Internal server error'' 500 ''INTERNAL_ERROR'')"

text \<open>
  What a caller of a service operation sees when it throws: the controllers pass the
  error to \<^verbatim>\<open>next\<close>, and the global handler answers with this code and status.
\<close>

definition error_code :: "error + 'a \<Rightarrow> string option" where
  "error_code r = (case r of Inl err \<Rightarrow> Some (code (errorHandler err)) | Inr ok \<Rightarrow> None)"

definition error_status :: "error + 'a \<Rightarrow> nat option" where
  "error_status r = (case r of Inl err \<Rightarrow> Some (status (errorHandler err)) | Inr ok \<Rightarrow> None)"

section \<open>Data model\<close>

datatype OrgRole = OWNER | ADMIN | MEMBER | GUEST

datatype SubscriptionStatus = ACTIVE | PAST_DUE | CANCELED | TRIALING

text \<open>
  Rows of the four tables the session and tenant code reads or writes. Timestamps are
  milliseconds since the epoch. Columns that the modelled functions never read
  (\<^verbatim>\<open>emailVerified\<close>, the subscription tier, usage counters and limits) are left out.
\<close>

record User =
  user_id :: string
  user_email :: string
  user_name :: "string option"
  user_image :: "string option"
  user_password :: "string option"
  user_createdAt :: nat

record RefreshToken =
  rt_id :: string
  rt_token :: string
  rt_userId :: string
  rt_expiresAt :: nat
  rt_createdAt :: nat

record Organization =
  org_id :: string
  org_name :: string
  org_slug :: string
  subscriptionStatus :: SubscriptionStatus

record OrganizationMember =
  om_id :: string
  om_organizationId :: string
  om_userId :: string
  om_role :: OrgRole

record Database =
  users :: "User list"
  refreshTokens :: "RefreshToken list"
  organizations :: "Organization list"
  organizationMembers :: "OrganizationMember list"

text \<open>The claims carried by an access token, and what the middlewares hang on a request.\<close>

record JwtPayload =
  userId :: string
  email :: string
  jwt_organizationId :: "string option"
  jwt_role :: "OrgRole option"

record Request =
  authorization :: "string option"
  params_organizationId :: "string option"
  query_organizationId :: "string option"
  body_organizationId :: "string option"
  user :: "JwtPayload option"
  organizationId :: "string option"
  orgRole :: "OrgRole option"

section \<open>Permission gate (permission.middleware.ts)\<close>

text \<open>\<^verbatim>\<open>Permission = keyof typeof permissions\<close>: one constructor per key of the table.\<close>

datatype Permission =
    organization_read | organization_update | organization_delete | organization_billing
  | member_invite | member_remove | member_update
  | project_create | project_read | project_update | project_delete
  | task_create | task_read | task_update | task_delete | task_assign
  | comment_create | comment_update | comment_delete
  | team_create | team_read | team_update | team_delete

fun permission_key :: "Permission \<Rightarrow> string" where
  "permission_key organization_read = ''organization:read''"
| "permission_key organization_update = ''organization:update''"
| "permission_key organization_delete = ''organization:delete''"
| "permission_key organization_billing = ''organization:billing''"
| "permission_key member_invite = ''member:invite''"
| "permission_key member_remove = ''member:remove''"
| "permission_key member_update = ''member:update''"
| "permission_key project_create = ''project:create''"
| "permission_key project_read = ''project:read''"
| "permission_key project_update = ''project:update''"
| "permission_key project_delete = ''project:delete''"
| "permission_key task_create = ''task:create''"
| "permission_key task_read = ''task:read''"
| "permission_key task_update = ''task:update''"
| "permission_key task_delete = ''task:delete''"
| "permission_key task_assign = ''task:assign''"
| "permission_key comment_create = ''comment:create''"
| "permission_key comment_update = ''comment:update''"
| "permission_key comment_delete = ''comment:delete''"
| "permission_key team_create = ''team:create''"
| "permission_key team_read = ''team:read''"
| "permission_key team_update = ''team:update''"
| "permission_key team_delete = ''team:delete''"

fun permissions :: "Permission \<Rightarrow> OrgRole list" where
  "permissions organization_read = [OWNER, ADMIN, MEMBER, GUEST]"
| "permissions organization_update = [OWNER, ADMIN]"
| "permissions organization_delete = [OWNER]"
| "permissions organization_billing = [OWNER]"
| "permissions member_invite = [OWNER, ADMIN]"
| "permissions member_remove = [OWNER, ADMIN]"
| "permissions member_update = [OWNER, ADMIN]"
| "permissions project_create = [OWNER, ADMIN, MEMBER]"
| "permissions project_read = [OWNER, ADMIN, MEMBER, GUEST]"
| "permissions project_update = [OWNER, ADMIN, MEMBER]"
| "permissions project_delete = [OWNER, ADMIN]"
| "permissions task_create = [OWNER, ADMIN, MEMBER]"
| "permissions task_read = [OWNER, ADMIN, MEMBER, GUEST]"
| "permissions task_update = [OWNER, ADMIN, MEMBER]"
| "permissions task_delete = [OWNER, ADMIN, MEMBER]"
| "permissions task_assign = [OWNER, ADMIN, MEMBER]"
| "permissions comment_create = [OWNER, ADMIN, MEMBER, GUEST]"
| "permissions comment_update = [OWNER, ADMIN, MEMBER]"
| "permissions comment_delete = [OWNER, ADMIN, MEMBER]"
| "permissions team_create = [OWNER, ADMIN]"
| "permissions team_read = [OWNER, ADMIN, MEMBER, GUEST]"
| "permissions team_update = [OWNER, ADMIN]"
| "permissions team_delete = [OWNER, ADMIN]"

text \<open>
  A middleware either sends a response (\<open>Inl\<close>) or calls \<^verbatim>\<open>next()\<close> with the request
  as it has left it (\<open>Inr\<close>). \<^verbatim>\<open>Array.prototype.includes\<close> is membership in the list.
\<close>

definition requirePermission :: "Permission \<Rightarrow> Request \<Rightarrow> Response + Request" where
  "requirePermission permission req =
     (case orgRole req of
        None \<Rightarrow> Inl (errorResponse ''Organization role not found'' 403 ''ROLE_MISSING'')
      | Some r \<Rightarrow>
          let allowedRoles = permissions permission in
          if r \<notin> set allowedRoles
          then Inl (errorResponse (''Insufficient permissions. Required: '' @ permission_key permission)
                      403 ''PERMISSION_DENIED'')
          else Inr req)"

section \<open>Authentication guard (auth.middleware.ts)\<close>

definition startsWith :: "string \<Rightarrow> string \<Rightarrow> bool" where
  "startsWith s p = (take (length p) s = p)"

definition substring :: "string \<Rightarrow> nat \<Rightarrow> string" where
  "substring s n = drop n s"

text \<open>
  \<^verbatim>\<open>verifyAccessToken\<close> lives in \<^verbatim>\<open>utils/jwt\<close>, which wraps the JWT library; it is a
  parameter here: given the token it returns the decoded claims or throws. The guard
  catches whatever it throws. (The outer \<^verbatim>\<open>catch\<close>, which answers 500
  \<^verbatim>\<open>AUTH_ERROR\<close>, guards only property reads that cannot throw.)
\<close>

definition authenticate ::
  "(string \<Rightarrow> error + JwtPayload) \<Rightarrow> Request \<Rightarrow> Response + Request" where
  "authenticate verifyAccessToken req =
     (case authorization req of
        None \<Rightarrow> Inl (errorResponse ''No authorization token provided'' 401 ''UNAUTHORIZED'')
      | Some authHeader \<Rightarrow>
          if authHeader = [] then
            Inl (errorResponse ''No authorization token provided'' 401 ''UNAUTHORIZED'')
          else if \<not> startsWith authHeader ''Bearer '' then
            Inl (errorResponse ''No authorization token provided'' 401 ''UNAUTHORIZED'')
          else
            let token = substring authHeader 7 in
            (case verifyAccessToken token of
               Inr payload \<Rightarrow> Inr (req\<lparr>user := Some payload\<rparr>)
             | Inl err \<Rightarrow> Inl (errorResponse ''Invalid or expired token'' 401 ''TOKEN_INVALID'')))"

section \<open>Tenant resolution (tenant.middleware.ts)\<close>

text \<open>JavaScript \<^verbatim>\<open>a || b\<close> on optional strings: undefined and the empty string are falsy.\<close>

fun truthy :: "string option \<Rightarrow> bool" where
  "truthy None = False"
| "truthy (Some s) = (s \<noteq> [])"

definition js_or :: "string option \<Rightarrow> string option \<Rightarrow> string option" where
  "js_or a b = (if truthy a then a else b)"

text \<open>
  \<^verbatim>\<open>prisma.organizationMember.findUnique\<close> on the compound key, and the organization
  it includes.
\<close>

definition organizationMember_findUnique ::
  "string \<Rightarrow> string \<Rightarrow> Database \<Rightarrow> OrganizationMember option" where
  "organizationMember_findUnique oid uid db =
     find (\<lambda>m. om_organizationId m = oid \<and> om_userId m = uid) (organizationMembers db)"

definition organization_of :: "OrganizationMember \<Rightarrow> Database \<Rightarrow> Organization option" where
  "organization_of m db = find (\<lambda>g. org_id g = om_organizationId m) (organizations db)"

text \<open>
  A membership row whose organization is missing cannot exist under the foreign key; if
  it did, reading \<^verbatim>\<open>membership.organization.subscriptionStatus\<close> would throw and the
  \<^verbatim>\<open>catch\<close> would answer 500 \<^verbatim>\<open>TENANT_ERROR\<close>.
\<close>

definition tenantContext :: "Database \<Rightarrow> Request \<Rightarrow> Response + Request" where
  "tenantContext db req =
     (case user req of
        None \<Rightarrow> Inl (errorResponse ''Authentication required'' 401 ''UNAUTHORIZED'')
      | Some u \<Rightarrow>
          let orgId = js_or (params_organizationId req)
                        (js_or (query_organizationId req) (body_organizationId req)) in
          (case orgId of
             None \<Rightarrow> Inl (errorResponse ''Organization ID required'' 400 ''ORG_ID_REQUIRED'')
           | Some oid \<Rightarrow>
               if oid = [] then
                 Inl (errorResponse ''Organization ID required'' 400 ''ORG_ID_REQUIRED'')
               else
                 (case organizationMember_findUnique oid (userId u) db of
                    None \<Rightarrow>
                      Inl (errorResponse ''Access denied to this organization'' 403 ''ORG_ACCESS_DENIED'')
                  | Some membership \<Rightarrow>
                      (case organization_of membership db of
                         None \<Rightarrow>
                           Inl (errorResponse ''Failed to validate organization context'' 500 ''TENANT_ERROR'')
                       | Some organization \<Rightarrow>
                           if subscriptionStatus organization \<noteq> ACTIVE then
                             Inl (errorResponse ''Organization subscription is not active'' 403 ''ORG_INACTIVE'')
                           else
                             Inr (req\<lparr>organizationId := Some oid,
                                       orgRole := Some (om_role membership)\<rparr>)))))"

section \<open>Session service (auth.service.ts)\<close>

text \<open>
  The collaborators of \<^verbatim>\<open>AuthService\<close> that are not part of it: the password hasher
  (\<^verbatim>\<open>utils/password\<close>), the token issuer and verifier (\<^verbatim>\<open>utils/jwt\<close>, which read the
  clock), the id generator of the storage layer, and \<^verbatim>\<open>addDays\<close> of the date library
  (calendar days in the server's time zone, so not a fixed number of milliseconds).
  They are parameters of every operation.
\<close>

record Deps =
  hashPassword :: "string \<Rightarrow> string"
  comparePassword :: "string \<Rightarrow> string \<Rightarrow> bool"
  generateAccessToken :: "nat \<Rightarrow> JwtPayload \<Rightarrow> string"
  generateRefreshToken :: "nat \<Rightarrow> string \<Rightarrow> string \<Rightarrow> string"
  verifyRefreshToken :: "nat \<Rightarrow> string \<Rightarrow> error + JwtPayload"
  cuid :: "Database \<Rightarrow> string"
  addDays :: "nat \<Rightarrow> nat \<Rightarrow> nat"

subsection \<open>Storage operations\<close>

definition user_findUnique :: "string \<Rightarrow> Database \<Rightarrow> User option" where
  "user_findUnique e db = find (\<lambda>u. user_email u = e) (users db)"

definition user_findById :: "string \<Rightarrow> Database \<Rightarrow> User option" where
  "user_findById uid db = find (\<lambda>u. user_id u = uid) (users db)"

text \<open>Inserts fail with Prisma's \<^verbatim>\<open>P2002\<close> on a unique index (\<^verbatim>\<open>User_email_key\<close>,
  \<^verbatim>\<open>RefreshToken_token_key\<close>).\<close>

definition user_create :: "User \<Rightarrow> Database \<Rightarrow> error + Database" where
  "user_create u db =
     (case user_findUnique (user_email u) db of
        Some other \<Rightarrow> Inl (PrismaClientKnownRequestError ''P2002'')
      | None \<Rightarrow> Inr (db\<lparr>users := users db @ [u]\<rparr>))"

definition refreshToken_findUnique :: "string \<Rightarrow> Database \<Rightarrow> RefreshToken option" where
  "refreshToken_findUnique t db = find (\<lambda>r. rt_token r = t) (refreshTokens db)"

definition refreshToken_create :: "RefreshToken \<Rightarrow> Database \<Rightarrow> error + Database" where
  "refreshToken_create r db =
     (case refreshToken_findUnique (rt_token r) db of
        Some other \<Rightarrow> Inl (PrismaClientKnownRequestError ''P2002'')
      | None \<Rightarrow> Inr (db\<lparr>refreshTokens := refreshTokens db @ [r]\<rparr>))"

definition refreshToken_deleteMany :: "string \<Rightarrow> Database \<Rightarrow> Database" where
  "refreshToken_deleteMany t db =
     db\<lparr>refreshTokens := filter (\<lambda>r. rt_token r \<noteq> t) (refreshTokens db)\<rparr>"

text \<open>\<^verbatim>\<open>memberships: { include: { organization: true }, take: 1 }\<close>: at most one
  membership of the user, paired with its organization. The query gives no
  \<^verbatim>\<open>orderBy\<close>; the list \<open>organizationMembers db\<close> stands for the rows in the order in
  which the storage layer returns them, so the one taken is the first in that order.\<close>

definition memberships ::
  "string \<Rightarrow> Database \<Rightarrow> (OrganizationMember \<times> Organization option) list" where
  "memberships uid db =
     map (\<lambda>m. (m, organization_of m db))
       (take 1 (filter (\<lambda>m. om_userId m = uid) (organizationMembers db)))"

subsection \<open>Results\<close>

record UserSelect =
  sel_id :: string
  sel_name :: "string option"
  sel_email :: string
  sel_image :: "string option"
  sel_createdAt :: "nat option"

record TokenPair =
  accessToken :: string
  refreshToken :: string

record RegisterResult = TokenPair +
  reg_user :: UserSelect

type_synonym OrgSummary = "string \<times> string \<times> string \<times> OrgRole"

record LoginResult = TokenPair +
  login_user :: UserSelect
  login_organizations :: "OrgSummary list"

record LogoutResult =
  logout_message :: string

subsection \<open>register\<close>

text \<open>Every operation takes the database and the time \<^verbatim>\<open>new Date()\<close> reads, and
  returns what it returns or throws together with the database it leaves behind.\<close>

definition register ::
  "Deps \<Rightarrow> nat \<Rightarrow> string \<Rightarrow> string \<Rightarrow> string \<Rightarrow> Database \<Rightarrow> (error + RegisterResult) \<times> Database" where
  "register deps now name e password db =
     (case user_findUnique e db of
        Some existingUser \<Rightarrow>
          (Inl (AppError ''User with this email already exists'' 409 ''USER_EXISTS''), db)
      | None \<Rightarrow>
          let hashedPassword = hashPassword deps password;
              u = \<lparr>user_id = cuid deps db, user_email = e, user_name = Some name,
                   user_image = None, user_password = Some hashedPassword,
                   user_createdAt = now\<rparr>
          in
          (case user_create u db of
             Inl err \<Rightarrow> (Inl err, db)
           | Inr db1 \<Rightarrow>
               let access = generateAccessToken deps now
                     \<lparr>userId = user_id u, email = user_email u,
                      jwt_organizationId = None, jwt_role = None\<rparr>;
                   refresh = generateRefreshToken deps now (user_id u) (user_email u)
               in
               (case refreshToken_create
                       \<lparr>rt_id = cuid deps db1, rt_token = refresh, rt_userId = user_id u,
                        rt_expiresAt = addDays deps now 7, rt_createdAt = now\<rparr> db1 of
                  Inl err \<Rightarrow> (Inl err, db1)
                | Inr db2 \<Rightarrow>
                    (Inr \<lparr>accessToken = access, refreshToken = refresh,
                          reg_user = \<lparr>sel_id = user_id u, sel_name = user_name u,
                                      sel_email = user_email u, sel_image = user_image u,
                                      sel_createdAt = Some (user_createdAt u)\<rparr>\<rparr>,
                     db2))))"

subsection \<open>login\<close>

text \<open>
  The third component of the result lists the calls made to \<^verbatim>\<open>comparePassword\<close>
  (plaintext, stored hash), in order: it is the one collaborator whose being called or
  not matters to a caller. \<^verbatim>\<open>!user.password\<close> holds for a null password and for an
  empty one. A membership without its organization, which the foreign key excludes,
  would make \<^verbatim>\<open>m.organization.id\<close> throw after the token row is stored.
\<close>

definition firstOrg ::
  "(OrganizationMember \<times> Organization option) list \<Rightarrow> OrganizationMember option" where
  "firstOrg ms = (case ms of [] \<Rightarrow> None | m # rest \<Rightarrow> Some (fst m))"

definition organizations_of ::
  "(OrganizationMember \<times> Organization option) list \<Rightarrow> OrgSummary list option" where
  "organizations_of ms =
     those (map (\<lambda>(m, g). map_option (\<lambda>g. (org_id g, org_name g, org_slug g, om_role m)) g) ms)"

definition login ::
  "Deps \<Rightarrow> nat \<Rightarrow> string \<Rightarrow> string \<Rightarrow> Database \<Rightarrow>
     (error + LoginResult) \<times> Database \<times> (string \<times> string) list" where
  "login deps now e password db =
     (case user_findUnique e db of
        None \<Rightarrow> (Inl (AppError ''Invalid credentials'' 401 ''INVALID_CREDENTIALS''), db, [])
      | Some u \<Rightarrow>
          (case user_password u of
             None \<Rightarrow> (Inl (AppError ''Invalid credentials'' 401 ''INVALID_CREDENTIALS''), db, [])
           | Some stored \<Rightarrow>
               if stored = [] then
                 (Inl (AppError ''Invalid credentials'' 401 ''INVALID_CREDENTIALS''), db, [])
               else
                 let isPasswordValid = comparePassword deps password stored;
                     calls = [(password, stored)]
                 in
                 if \<not> isPasswordValid then
                   (Inl (AppError ''Invalid credentials'' 401 ''INVALID_CREDENTIALS''), db, calls)
                 else
                   let ms = memberships (user_id u) db;
                       access = generateAccessToken deps now
                         \<lparr>userId = user_id u, email = user_email u,
                          jwt_organizationId = map_option om_organizationId (firstOrg ms),
                          jwt_role = map_option om_role (firstOrg ms)\<rparr>;
                       refresh = generateRefreshToken deps now (user_id u) (user_email u)
                   in
                   (case refreshToken_create
                           \<lparr>rt_id = cuid deps db, rt_token = refresh, rt_userId = user_id u,
                            rt_expiresAt = addDays deps now 7, rt_createdAt = now\<rparr> db of
                      Inl err \<Rightarrow> (Inl err, db, calls)
                    | Inr db1 \<Rightarrow>
                        (case organizations_of ms of
                           None \<Rightarrow> (Inl (NamedError ''TypeError''), db1, calls)
                         | Some orgs \<Rightarrow>
                             (Inr \<lparr>accessToken = access, refreshToken = refresh,
                                   login_user = \<lparr>sel_id = user_id u, sel_name = user_name u,
                                                 sel_email = user_email u, sel_image = user_image u,
                                                 sel_createdAt = None\<rparr>,
                                   login_organizations = orgs\<rparr>,
                              db1, calls)))))"

subsection \<open>refreshAccessToken\<close>

text \<open>The body of the \<^verbatim>\<open>try\<close> block: what it returns, or what it throws.\<close>

definition refreshAccessToken_try ::
  "Deps \<Rightarrow> nat \<Rightarrow> string \<Rightarrow> Database \<Rightarrow> error + TokenPair" where
  "refreshAccessToken_try deps now token db =
     (case verifyRefreshToken deps now token of
        Inl err \<Rightarrow> Inl err
      | Inr payload \<Rightarrow>
          (case refreshToken_findUnique token db of
             None \<Rightarrow> Inl (AppError ''Invalid or expired refresh token'' 401 ''TOKEN_INVALID'')
           | Some storedToken \<Rightarrow>
               if rt_expiresAt storedToken < now then
                 Inl (AppError ''Invalid or expired refresh token'' 401 ''TOKEN_INVALID'')
               else
                 (case user_findById (rt_userId storedToken) db of
                    None \<Rightarrow> Inl (NamedError ''TypeError'')
                  | Some u \<Rightarrow>
                      let ms = memberships (user_id u) db;
                          access = generateAccessToken deps now
                            \<lparr>userId = user_id u, email = user_email u,
                             jwt_organizationId = map_option om_organizationId (firstOrg ms),
                             jwt_role = map_option om_role (firstOrg ms)\<rparr>
                      in Inr \<lparr>accessToken = access, refreshToken = token\<rparr>)))"

text \<open>The \<^verbatim>\<open>catch\<close> replaces whatever was thrown. Nothing is written to the database.\<close>

definition refreshAccessToken ::
  "Deps \<Rightarrow> nat \<Rightarrow> string \<Rightarrow> Database \<Rightarrow> (error + TokenPair) \<times> Database" where
  "refreshAccessToken deps now token db =
     (case refreshAccessToken_try deps now token db of
        Inl err \<Rightarrow> (Inl (AppError ''Invalid or expired refresh token'' 401 ''TOKEN_INVALID''), db)
      | Inr result \<Rightarrow> (Inr result, db))"

subsection \<open>logout\<close>

definition logout :: "string \<Rightarrow> Database \<Rightarrow> (error + LogoutResult) \<times> Database" where
  "logout token db =
     (Inr \<lparr>logout_message = ''Logged out successfully''\<rparr>, refreshToken_deleteMany token db)"

subsection \<open>Sequences of calls\<close>

text \<open>
  A call to the service with the time at which it runs; \<open>step\<close> is the database it
  leaves, \<open>run\<close> a sequence of calls, and \<open>issued\<close> the refresh-token strings for which
  the sequence stored a row that was not there before the call.
\<close>

datatype call =
    Register string string string
  | Login string string
  | Refresh string
  | Logout string

fun step :: "Deps \<Rightarrow> nat \<times> call \<Rightarrow> Database \<Rightarrow> Database" where
  "step deps (now, Register name e password) db = snd (register deps now name e password db)"
| "step deps (now, Login e password) db = fst (snd (login deps now e password db))"
| "step deps (now, Refresh token) db = snd (refreshAccessToken deps now token db)"
| "step deps (now, Logout token) db = snd (logout token db)"

definition tokens :: "Database \<Rightarrow> string list" where
  "tokens db = map rt_token (refreshTokens db)"

definition new_tokens :: "Database \<Rightarrow> Database \<Rightarrow> string list" where
  "new_tokens db db' = filter (\<lambda>t. t \<notin> set (tokens db)) (tokens db')"

fun run :: "Deps \<Rightarrow> (nat \<times> call) list \<Rightarrow> Database \<Rightarrow> Database" where
  "run deps [] db = db"
| "run deps (c # cs) db = run deps cs (step deps c db)"

fun issued :: "Deps \<Rightarrow> (nat \<times> call) list \<Rightarrow> Database \<Rightarrow> string list" where
  "issued deps [] db = []"
| "issued deps (c # cs) db =
     new_tokens db (step deps c db) @ issued deps cs (step deps c db)"

subsection \<open>Sample collaborators and data\<close>

text \<open>
  Stand-ins used to evaluate the operations on concrete inputs: the hash prefixes
  \<open>h:\<close>, tokens are readable strings, and a refresh token is rejected by the verifier
  exactly when it does not start with \<open>rt:\<close>.
\<close>

definition sample_deps :: Deps where
  "sample_deps =
     \<lparr>hashPassword = (\<lambda>p. ''h:'' @ p),
      comparePassword = (\<lambda>p h. h = ''h:'' @ p),
      generateAccessToken = (\<lambda>now pl. ''at:'' @ userId pl),
      generateRefreshToken = (\<lambda>now uid e. ''rt:'' @ uid),
      verifyRefreshToken = (\<lambda>now t.
         if startsWith t ''rt:''
         then Inr \<lparr>userId = substring t 3, email = [], jwt_organizationId = None, jwt_role = None\<rparr>
         else Inl (NamedError ''JsonWebTokenError'')),
      cuid = (\<lambda>db. replicate (length (users db) + length (refreshTokens db)) CHR ''c''),
      addDays = (\<lambda>date amount. date + amount * 86400000)\<rparr>"

definition alice :: User where
  "alice = \<lparr>user_id = ''u1'', user_email = ''a@x.com'', user_name = Some ''Alice'',
            user_image = None, user_password = Some ''h:secret'', user_createdAt = 1\<rparr>"

definition oauth_bob :: User where
  "oauth_bob = \<lparr>user_id = ''u2'', user_email = ''b@x.com'', user_name = Some ''Bob'',
                user_image = None, user_password = None, user_createdAt = 2\<rparr>"

definition acme :: Organization where
  "acme = \<lparr>org_id = ''o1'', org_name = ''Acme'', org_slug = ''acme'', subscriptionStatus = ACTIVE\<rparr>"

definition latepay :: Organization where
  "latepay = \<lparr>org_id = ''o2'', org_name = ''LatePay'', org_slug = ''latepay'',
              subscriptionStatus = PAST_DUE\<rparr>"

definition globex :: Organization where
  "globex = \<lparr>org_id = ''o3'', org_name = ''Globex'', org_slug = ''globex'',
             subscriptionStatus = ACTIVE\<rparr>"

text \<open>
  Alice (\<open>u1\<close>) is ADMIN of Acme and OWNER of LatePay; Bob (\<open>u2\<close>) is GUEST of Acme,
  listed before Alice's row, and the only member of Globex.
\<close>

definition sample_db :: Database where
  "sample_db =
     \<lparr>users = [alice, oauth_bob],
      refreshTokens =
        [\<lparr>rt_id = ''r1'', rt_token = ''rt:u1'', rt_userId = ''u1'', rt_expiresAt = 100, rt_createdAt = 1\<rparr>],
      organizations = [acme, latepay, globex],
      organizationMembers =
        [\<lparr>om_id = ''m0'', om_organizationId = ''o1'', om_userId = ''u2'', om_role = GUEST\<rparr>,
         \<lparr>om_id = ''m1'', om_organizationId = ''o1'', om_userId = ''u1'', om_role = ADMIN\<rparr>,
         \<lparr>om_id = ''m2'', om_organizationId = ''o2'', om_userId = ''u1'', om_role = OWNER\<rparr>,
         \<lparr>om_id = ''m3'', om_organizationId = ''o3'', om_userId = ''u2'', om_role = MEMBER\<rparr>]\<rparr>"

definition sample_request :: Request where
  "sample_request =
     \<lparr>authorization = Some ''Bearer good'', params_organizationId = None,
      query_organizationId = None, body_organizationId = None,
      user = Some \<lparr>userId = ''u1'', email = ''a@x.com'', jwt_organizationId = None, jwt_role = None\<rparr>,
      organizationId = None, orgRole = None\<rparr>"

text \<open>A verifier that accepts \<open>good\<close>, finds \<open>old\<close> expired and rejects everything else.\<close>

definition sample_verifyAccessToken :: "string \<Rightarrow> error + JwtPayload" where
  "sample_verifyAccessToken t =
     (if t = ''good'' then
        Inr \<lparr>userId = ''u1'', email = ''a@x.com'', jwt_organizationId = None, jwt_role = None\<rparr>
      else if t = ''old'' then Inl (NamedError ''TokenExpiredError'')
      else Inl (NamedError ''JsonWebTokenError''))"

section \<open>Supporting lemmas\<close>

lemmas sample_defs =
  sample_deps_def sample_db_def alice_def oauth_bob_def acme_def latepay_def globex_def
  sample_request_def sample_verifyAccessToken_def startsWith_def substring_def

lemmas store_defs =
  user_findUnique_def user_findById_def user_create_def refreshToken_findUnique_def
  refreshToken_create_def refreshToken_deleteMany_def memberships_def organization_of_def
  organizationMember_findUnique_def firstOrg_def organizations_of_def

lemma user_findUnique_exists:
  "(\<exists>u \<in> set (users db). user_email u = e) \<Longrightarrow> \<exists>u. user_findUnique e db = Some u"
  by (cases "user_findUnique e db") (auto simp: user_findUnique_def find_None_iff)

lemma refreshToken_findUnique_None_iff:
  "refreshToken_findUnique t db = None \<longleftrightarrow> t \<notin> set (tokens db)"
  by (auto simp: refreshToken_findUnique_def tokens_def find_None_iff)

lemma organizationMember_findUnique_None_iff:
  "organizationMember_findUnique oid uid db = None \<longleftrightarrow>
     \<not> (\<exists>m \<in> set (organizationMembers db). om_organizationId m = oid \<and> om_userId m = uid)"
  by (auto simp: organizationMember_findUnique_def find_None_iff)

lemma organizationMember_findUnique_Some:
  "organizationMember_findUnique oid uid db = Some m \<Longrightarrow>
     m \<in> set (organizationMembers db) \<and> om_organizationId m = oid \<and> om_userId m = uid"
  by (auto simp: organizationMember_findUnique_def find_Some_iff)

lemma find_unique:
  assumes "x \<in> set xs" and "P x" and "\<forall>y \<in> set xs. P y \<longrightarrow> y = x"
  shows "find P xs = Some x"
proof (cases "find P xs")
  case None
  with assms(1,2) show ?thesis by (auto simp: find_None_iff)
next
  case (Some y)
  then have "P y" and "y \<in> set xs"
    by (auto simp: find_Some_iff)
  with assms(3) Some show ?thesis by simp
qed

lemma organizationMember_findUnique_exists:
  assumes "m \<in> set (organizationMembers db)"
      and "om_organizationId m = oid" and "om_userId m = uid"
  shows "\<exists>row. organizationMember_findUnique oid uid db = Some row \<and>
               row \<in> set (organizationMembers db) \<and>
               om_organizationId row = oid \<and> om_userId row = uid"
proof (cases "organizationMember_findUnique oid uid db")
  case None
  with assms show ?thesis
    by (auto simp: organizationMember_findUnique_None_iff)
next
  case (Some row)
  then show ?thesis
    using organizationMember_findUnique_Some [OF Some] by simp
qed

lemma organizationMember_findUnique_unique:
  assumes "m \<in> set (organizationMembers db)"
      and "om_organizationId m = oid" and "om_userId m = uid"
      and "\<forall>m' \<in> set (organizationMembers db).
             om_organizationId m' = oid \<and> om_userId m' = uid \<longrightarrow> m' = m"
  shows "organizationMember_findUnique oid uid db = Some m"
  unfolding organizationMember_findUnique_def
proof (rule find_unique)
  show "m \<in> set (organizationMembers db)" by (rule assms(1))
  show "om_organizationId m = oid \<and> om_userId m = uid" using assms(2,3) by simp
  show "\<forall>y \<in> set (organizationMembers db).
          om_organizationId y = oid \<and> om_userId y = uid \<longrightarrow> y = m" by (rule assms(4))
qed

lemma organization_of_unique:
  assumes "g \<in> set (organizations db)" and "org_id g = om_organizationId m"
      and "\<forall>g' \<in> set (organizations db). org_id g' = om_organizationId m \<longrightarrow> g' = g"
  shows "organization_of m db = Some g"
  unfolding organization_of_def
proof (rule find_unique)
  show "g \<in> set (organizations db)" by (rule assms(1))
  show "org_id g = om_organizationId m" by (rule assms(2))
  show "\<forall>y \<in> set (organizations db). org_id y = om_organizationId m \<longrightarrow> y = g"
    by (rule assms(3))
qed

lemma organization_of_Some:
  "organization_of m db = Some g \<Longrightarrow>
     g \<in> set (organizations db) \<and> org_id g = om_organizationId m"
  by (auto simp: organization_of_def find_Some_iff)

lemma tenantContext_found:
  assumes "user req = Some u"
      and "js_or (params_organizationId req)
             (js_or (query_organizationId req) (body_organizationId req)) = Some oid"
      and "oid \<noteq> []"
      and "organizationMember_findUnique oid (userId u) db = Some row"
      and "organization_of row db = Some g"
  shows "tenantContext db req =
           (if subscriptionStatus g \<noteq> ACTIVE
            then Inl \<lparr>status = 403, code = ''ORG_INACTIVE'',
                      message = ''Organization subscription is not active''\<rparr>
            else Inr (req\<lparr>organizationId := Some oid, orgRole := Some (om_role row)\<rparr>))"
  using assms by (simp add: tenantContext_def errorResponse_def Let_def)

text \<open>What each operation does to the set of stored token strings.\<close>

lemma tokens_refreshToken_create:
  "refreshToken_create r db = Inr db' \<Longrightarrow> tokens db' = tokens db @ [rt_token r]"
  by (auto simp: refreshToken_create_def tokens_def split: option.splits)

lemma tokens_user_create:
  "user_create u db = Inr db' \<Longrightarrow> tokens db' = tokens db"
  by (auto simp: user_create_def tokens_def split: option.splits)

lemma tokens_register:
  "set (tokens (snd (register deps now name e password db)))
     \<subseteq> set (tokens db) \<union> {generateRefreshToken deps now (cuid deps db) e}"
  by (auto simp: register_def Let_def dest!: tokens_refreshToken_create tokens_user_create
           split: option.splits sum.splits)

lemma tokens_refreshAccessToken:
  "tokens (snd (refreshAccessToken deps now t db)) = tokens db"
  by (simp add: refreshAccessToken_def split: sum.splits)

lemma tokens_logout: "set (tokens (snd (logout t db))) = set (tokens db) - {t}"
  by (auto simp: logout_def refreshToken_deleteMany_def tokens_def)

lemma tokens_step_new:
  "t \<notin> set (tokens db) \<Longrightarrow> t \<notin> set (new_tokens db db') \<Longrightarrow> t \<notin> set (tokens db')"
  by (simp add: new_tokens_def)

lemma tokens_run:
  "t \<notin> set (tokens db) \<Longrightarrow> t \<notin> set (issued deps cs db) \<Longrightarrow> t \<notin> set (tokens (run deps cs db))"
proof (induction cs arbitrary: db)
  case Nil
  then show ?case by simp
next
  case (Cons c cs)
  from Cons.prems have "t \<notin> set (tokens (step deps c db))"
    using tokens_step_new [of t db "step deps c db"] by simp
  moreover from Cons.prems have "t \<notin> set (issued deps cs (step deps c db))"
    by simp
  ultimately show ?case
    using Cons.IH by simp
qed

lemma refreshAccessToken_without_row:
  assumes "t \<notin> set (tokens db)"
  shows "refreshAccessToken deps now t db =
           (Inl (AppError ''Invalid or expired refresh token'' 401 ''TOKEN_INVALID''), db)"
proof -
  from assms have "refreshToken_findUnique t db = None"
    by (simp add: refreshToken_findUnique_None_iff)
  then show ?thesis
    by (simp add: refreshAccessToken_def refreshAccessToken_try_def split: sum.splits)
qed

section \<open>Refresh of an access token\<close>

text \<open>
  C1, as the specification states it, fails on the code. The sample refresh token
  \<open>rt:u1\<close> passes the verifier and has a stored row whose expiry (100) is earlier than
  the current time (200); \<open>refreshAccessToken\<close> fails with the code
  \<^verbatim>\<open>TOKEN_INVALID\<close>, not \<^verbatim>\<open>TOKEN_EXPIRED\<close>.
\<close>

theorem refreshAccessToken_expired_row_counterexample:
  "verifyRefreshToken sample_deps 200 ''rt:u1'' =
     Inr \<lparr>userId = ''u1'', email = [], jwt_organizationId = None, jwt_role = None\<rparr> \<and>
   map_option rt_expiresAt (refreshToken_findUnique ''rt:u1'' sample_db) = Some 100 \<and>
   (100::nat) < 200 \<and>
   error_code (fst (refreshAccessToken sample_deps 200 ''rt:u1'' sample_db)) = Some ''TOKEN_INVALID'' \<and>
   error_code (fst (refreshAccessToken sample_deps 200 ''rt:u1'' sample_db)) \<noteq> Some ''TOKEN_EXPIRED''"
  by (simp add: refreshAccessToken_def refreshAccessToken_try_def error_code_def errorResponse_def
        sample_defs store_defs)

text \<open>
  C1, amended: for every refresh token \<open>t\<close> that the verifier accepts, if no row for
  \<open>t\<close> is stored, or if the row stored for \<open>t\<close> has an expiry earlier than the
  current time, \<open>refreshAccessToken t\<close> throws the same error in both cases,
  \<^verbatim>\<open>AppError('Invalid or expired refresh token', 401, 'TOKEN_INVALID')\<close>, and leaves
  the database as it was. The two causes are not distinguished.
\<close>

theorem refreshAccessToken_absent_or_expired:
  assumes "verifyRefreshToken deps now t = Inr payload"
  shows "(refreshToken_findUnique t db = None \<longrightarrow>
            refreshAccessToken deps now t db =
              (Inl (AppError ''Invalid or expired refresh token'' 401 ''TOKEN_INVALID''), db)) \<and>
         (refreshToken_findUnique t db = Some row \<and> rt_expiresAt row < now \<longrightarrow>
            refreshAccessToken deps now t db =
              (Inl (AppError ''Invalid or expired refresh token'' 401 ''TOKEN_INVALID''), db)) \<and>
         error_code (Inl (AppError ''Invalid or expired refresh token'' 401 ''TOKEN_INVALID'')
                       :: error + TokenPair) = Some ''TOKEN_INVALID'' \<and>
         error_status (Inl (AppError ''Invalid or expired refresh token'' 401 ''TOKEN_INVALID'')
                       :: error + TokenPair) = Some 401"
  using assms
  by (simp add: refreshAccessToken_def refreshAccessToken_try_def error_code_def error_status_def
        errorResponse_def)

theorem refreshAccessToken_absent_or_expired_witness:
  "verifyRefreshToken sample_deps 200 ''rt:u9'' =
     Inr \<lparr>userId = ''u9'', email = [], jwt_organizationId = None, jwt_role = None\<rparr> \<and>
   refreshToken_findUnique ''rt:u9'' sample_db = None \<and>
   refreshAccessToken sample_deps 200 ''rt:u9'' sample_db =
     (Inl (AppError ''Invalid or expired refresh token'' 401 ''TOKEN_INVALID''), sample_db) \<and>
   verifyRefreshToken sample_deps 200 ''rt:u1'' =
     Inr \<lparr>userId = ''u1'', email = [], jwt_organizationId = None, jwt_role = None\<rparr> \<and>
   refreshToken_findUnique ''rt:u1'' sample_db =
     Some \<lparr>rt_id = ''r1'', rt_token = ''rt:u1'', rt_userId = ''u1'', rt_expiresAt = 100,
           rt_createdAt = 1\<rparr> \<and>
   (100::nat) < 200 \<and>
   refreshAccessToken sample_deps 200 ''rt:u1'' sample_db =
     (Inl (AppError ''Invalid or expired refresh token'' 401 ''TOKEN_INVALID''), sample_db)"
proof -
  have v9: "verifyRefreshToken sample_deps 200 ''rt:u9'' =
     Inr \<lparr>userId = ''u9'', email = [], jwt_organizationId = None, jwt_role = None\<rparr>"
    by (simp add: sample_defs)
  have v1: "verifyRefreshToken sample_deps 200 ''rt:u1'' =
     Inr \<lparr>userId = ''u1'', email = [], jwt_organizationId = None, jwt_role = None\<rparr>"
    by (simp add: sample_defs)
  have f9: "refreshToken_findUnique ''rt:u9'' sample_db = None"
    by (simp add: sample_defs store_defs)
  have f1: "refreshToken_findUnique ''rt:u1'' sample_db =
     Some \<lparr>rt_id = ''r1'', rt_token = ''rt:u1'', rt_userId = ''u1'', rt_expiresAt = 100,
           rt_createdAt = 1\<rparr>"
    by (simp add: sample_defs store_defs)
  show ?thesis
    using v9 v1 f9 f1
      refreshAccessToken_absent_or_expired [OF v9, of sample_db]
      refreshAccessToken_absent_or_expired [OF v1, of sample_db
        "\<lparr>rt_id = ''r1'', rt_token = ''rt:u1'', rt_userId = ''u1'', rt_expiresAt = 100,
          rt_createdAt = 1\<rparr>"]
    by simp
qed

text \<open>
  C9: whenever \<open>refreshAccessToken t\<close> succeeds, the refresh token in its result is
  \<open>t\<close> itself and the database after the call is the database before it: no row is
  deleted, inserted or updated.
\<close>

theorem refreshAccessToken_no_rotation:
  assumes "refreshAccessToken deps now t db = (Inr r, db')"
  shows "refreshToken r = t \<and> db' = db"
  using assms
  by (auto simp: refreshAccessToken_def refreshAccessToken_try_def Let_def
           split: sum.splits option.splits if_splits)

theorem refreshAccessToken_no_rotation_witness:
  "refreshAccessToken sample_deps 50 ''rt:u1'' sample_db =
     (Inr \<lparr>accessToken = ''at:u1'', refreshToken = ''rt:u1''\<rparr>, sample_db) \<and>
   refreshToken \<lparr>accessToken = ''at:u1'', refreshToken = ''rt:u1''\<rparr> = ''rt:u1'' \<and>
   sample_db = sample_db"
proof -
  have ok: "refreshAccessToken sample_deps 50 ''rt:u1'' sample_db =
     (Inr \<lparr>accessToken = ''at:u1'', refreshToken = ''rt:u1''\<rparr>, sample_db)"
    by (simp add: refreshAccessToken_def refreshAccessToken_try_def sample_defs store_defs)
  show ?thesis
    using ok refreshAccessToken_no_rotation [OF ok] by simp
qed

section \<open>Authentication guard\<close>

text \<open>
  C2, as the specification states it, fails on the code. For the bearer token \<open>old\<close>,
  which the sample verifier reports as expired (\<^verbatim>\<open>TokenExpiredError\<close>), the guard
  answers 401 with the code \<^verbatim>\<open>TOKEN_INVALID\<close>; it does not answer what the global
  handler would make of that error (\<^verbatim>\<open>TOKEN_EXPIRED\<close>).
\<close>

theorem authenticate_expired_counterexample:
  "sample_verifyAccessToken ''old'' = Inl (NamedError ''TokenExpiredError'') \<and>
   authenticate sample_verifyAccessToken (sample_request\<lparr>authorization := Some ''Bearer old''\<rparr>) =
     Inl \<lparr>status = 401, code = ''TOKEN_INVALID'', message = ''Invalid or expired token''\<rparr> \<and>
   code (errorHandler (NamedError ''TokenExpiredError'')) = ''TOKEN_EXPIRED'' \<and>
   authenticate sample_verifyAccessToken (sample_request\<lparr>authorization := Some ''Bearer old''\<rparr>) \<noteq>
     Inl (errorHandler (NamedError ''TokenExpiredError''))"
  by (simp add: authenticate_def errorResponse_def sample_defs)

text \<open>
  C2, amended: for every request carrying a Bearer access token that
  \<^verbatim>\<open>verifyAccessToken\<close> rejects, whatever it throws (expiry passed or signature not
  verifying), the guard answers 401 with the one machine-readable code
  \<^verbatim>\<open>TOKEN_INVALID\<close> and the message \<^verbatim>\<open>Invalid or expired token\<close>. The two causes
  are not distinguished.
\<close>

theorem authenticate_rejected_token:
  assumes "authorization req = Some (''Bearer '' @ token)"
      and "verifyAccessToken token = Inl err"
  shows "authenticate verifyAccessToken req =
           Inl \<lparr>status = 401, code = ''TOKEN_INVALID'', message = ''Invalid or expired token''\<rparr>"
  using assms by (simp add: authenticate_def errorResponse_def startsWith_def substring_def)

theorem authenticate_rejected_token_witness:
  "authorization (sample_request\<lparr>authorization := Some ''Bearer old''\<rparr>) =
     Some (''Bearer '' @ ''old'') \<and>
   sample_verifyAccessToken ''old'' = Inl (NamedError ''TokenExpiredError'') \<and>
   authenticate sample_verifyAccessToken (sample_request\<lparr>authorization := Some ''Bearer old''\<rparr>) =
     Inl \<lparr>status = 401, code = ''TOKEN_INVALID'', message = ''Invalid or expired token''\<rparr> \<and>
   authorization (sample_request\<lparr>authorization := Some ''Bearer forged''\<rparr>) =
     Some (''Bearer '' @ ''forged'') \<and>
   sample_verifyAccessToken ''forged'' = Inl (NamedError ''JsonWebTokenError'') \<and>
   authenticate sample_verifyAccessToken (sample_request\<lparr>authorization := Some ''Bearer forged''\<rparr>) =
     Inl \<lparr>status = 401, code = ''TOKEN_INVALID'', message = ''Invalid or expired token''\<rparr>"
proof -
  have a1: "authorization (sample_request\<lparr>authorization := Some ''Bearer old''\<rparr>) =
              Some (''Bearer '' @ ''old'')"
    by simp
  have a2: "authorization (sample_request\<lparr>authorization := Some ''Bearer forged''\<rparr>) =
              Some (''Bearer '' @ ''forged'')"
    by simp
  have v1: "sample_verifyAccessToken ''old'' = Inl (NamedError ''TokenExpiredError'')"
    by (simp add: sample_verifyAccessToken_def)
  have v2: "sample_verifyAccessToken ''forged'' = Inl (NamedError ''JsonWebTokenError'')"
    by (simp add: sample_verifyAccessToken_def)
  show ?thesis
    using a1 a2 v1 v2
      authenticate_rejected_token [where verifyAccessToken = sample_verifyAccessToken
        and req = "sample_request\<lparr>authorization := Some ''Bearer old''\<rparr>"
        and token = "''old''" and err = "NamedError ''TokenExpiredError''"]
      authenticate_rejected_token [where verifyAccessToken = sample_verifyAccessToken
        and req = "sample_request\<lparr>authorization := Some ''Bearer forged''\<rparr>"
        and token = "''forged''" and err = "NamedError ''JsonWebTokenError''"]
    by simp
qed

section \<open>Tenant resolution\<close>

text \<open>
  C3: for an authenticated request of user \<open>u\<close>, where \<open>orgId\<close> is the organization
  id taken from the route parameters, the query or the body: tenant resolution answers
  \<^verbatim>\<open>ORG_ID_REQUIRED\<close> when none is supplied; otherwise \<^verbatim>\<open>ORG_ACCESS_DENIED\<close> when
  the table of memberships holds no row for the pair (\<open>orgId\<close>, \<open>u\<close>), whatever rows
  it holds for other users or other organizations; otherwise \<^verbatim>\<open>ORG_INACTIVE\<close> when
  the organization's subscription status is not \<open>ACTIVE\<close>, although a membership row
  for the pair exists; otherwise it succeeds, and the role it yields is the role of the
  row of the table for that pair. Whenever it succeeds, the table holds a row for the
  pair with the role yielded and the organization is \<open>ACTIVE\<close>. The rows are those of
  \<open>organizationMembers\<close> and \<open>organizations\<close>; the pair is a unique key of the
  first and the id the primary key of the second.
\<close>

theorem tenantContext_resolution:
  assumes "user req = Some u"
      and "orgId = js_or (params_organizationId req)
                     (js_or (query_organizationId req) (body_organizationId req))"
  shows "(\<not> truthy orgId \<longrightarrow>
            tenantContext db req =
              Inl \<lparr>status = 400, code = ''ORG_ID_REQUIRED'', message = ''Organization ID required''\<rparr>) \<and>
         (orgId = Some oid \<and> oid \<noteq> [] \<and>
          (\<forall>row \<in> set (organizationMembers db).
              \<not> (om_organizationId row = oid \<and> om_userId row = userId u)) \<longrightarrow>
            tenantContext db req =
              Inl \<lparr>status = 403, code = ''ORG_ACCESS_DENIED'',
                   message = ''Access denied to this organization''\<rparr>) \<and>
         (orgId = Some oid \<and> oid \<noteq> [] \<and>
          m \<in> set (organizationMembers db) \<and>
          om_organizationId m = oid \<and> om_userId m = userId u \<and>
          g \<in> set (organizations db) \<and> org_id g = oid \<and>
          (\<forall>g' \<in> set (organizations db). org_id g' = oid \<longrightarrow> g' = g) \<and>
          subscriptionStatus g \<noteq> ACTIVE \<longrightarrow>
            tenantContext db req =
              Inl \<lparr>status = 403, code = ''ORG_INACTIVE'',
                   message = ''Organization subscription is not active''\<rparr>) \<and>
         (orgId = Some oid \<and> oid \<noteq> [] \<and>
          m \<in> set (organizationMembers db) \<and>
          om_organizationId m = oid \<and> om_userId m = userId u \<and>
          (\<forall>m' \<in> set (organizationMembers db).
              om_organizationId m' = oid \<and> om_userId m' = userId u \<longrightarrow> m' = m) \<and>
          g \<in> set (organizations db) \<and> org_id g = oid \<and>
          (\<forall>g' \<in> set (organizations db). org_id g' = oid \<longrightarrow> g' = g) \<and>
          subscriptionStatus g = ACTIVE \<longrightarrow>
            tenantContext db req =
              Inr (req\<lparr>organizationId := Some oid, orgRole := Some (om_role m)\<rparr>)) \<and>
         (tenantContext db req = Inr req' \<longrightarrow>
            (\<exists>oid' row org.
                orgId = Some oid' \<and> oid' \<noteq> [] \<and>
                row \<in> set (organizationMembers db) \<and>
                om_organizationId row = oid' \<and> om_userId row = userId u \<and>
                org \<in> set (organizations db) \<and> org_id org = oid' \<and>
                subscriptionStatus org = ACTIVE \<and>
                organizationId req' = Some oid' \<and> orgRole req' = Some (om_role row)))"
proof (intro conjI impI)
  assume nt: "\<not> truthy orgId"
  have eq: "js_or (params_organizationId req)
      (js_or (query_organizationId req) (body_organizationId req)) = orgId"
    using assms(2) by simp
  show "tenantContext db req =
      Inl \<lparr>status = 400, code = ''ORG_ID_REQUIRED'', message = ''Organization ID required''\<rparr>"
  proof (cases orgId)
    case None
    with assms(1) eq show ?thesis
      by (simp add: tenantContext_def errorResponse_def Let_def)
  next
    case (Some a)
    with nt have "orgId = Some []" by simp
    with assms(1) eq show ?thesis
      by (simp add: tenantContext_def errorResponse_def Let_def)
  qed
next
  assume h: "orgId = Some oid \<and> oid \<noteq> [] \<and>
     (\<forall>row \<in> set (organizationMembers db).
         \<not> (om_organizationId row = oid \<and> om_userId row = userId u))"
  then have "organizationMember_findUnique oid (userId u) db = None"
    by (simp add: organizationMember_findUnique_None_iff)
  with h assms show "tenantContext db req =
      Inl \<lparr>status = 403, code = ''ORG_ACCESS_DENIED'',
           message = ''Access denied to this organization''\<rparr>"
    by (simp add: tenantContext_def errorResponse_def Let_def)
next
  assume h: "orgId = Some oid \<and> oid \<noteq> [] \<and>
     m \<in> set (organizationMembers db) \<and>
     om_organizationId m = oid \<and> om_userId m = userId u \<and>
     g \<in> set (organizations db) \<and> org_id g = oid \<and>
     (\<forall>g' \<in> set (organizations db). org_id g' = oid \<longrightarrow> g' = g) \<and>
     subscriptionStatus g \<noteq> ACTIVE"
  then obtain row where row: "organizationMember_findUnique oid (userId u) db = Some row"
      and ro: "om_organizationId row = oid"
    using organizationMember_findUnique_exists [of m db oid "userId u"] by blast
  have org: "organization_of row db = Some g"
    by (rule organization_of_unique) (use h ro in simp_all)
  from h assms have oid: "js_or (params_organizationId req)
      (js_or (query_organizationId req) (body_organizationId req)) = Some oid" and ne: "oid \<noteq> []"
    by simp_all
  from h show "tenantContext db req =
      Inl \<lparr>status = 403, code = ''ORG_INACTIVE'',
           message = ''Organization subscription is not active''\<rparr>"
    by (simp add: tenantContext_found [OF assms(1) oid ne row org])
next
  assume h: "orgId = Some oid \<and> oid \<noteq> [] \<and>
     m \<in> set (organizationMembers db) \<and>
     om_organizationId m = oid \<and> om_userId m = userId u \<and>
     (\<forall>m' \<in> set (organizationMembers db).
         om_organizationId m' = oid \<and> om_userId m' = userId u \<longrightarrow> m' = m) \<and>
     g \<in> set (organizations db) \<and> org_id g = oid \<and>
     (\<forall>g' \<in> set (organizations db). org_id g' = oid \<longrightarrow> g' = g) \<and>
     subscriptionStatus g = ACTIVE"
  have row: "organizationMember_findUnique oid (userId u) db = Some m"
    by (rule organizationMember_findUnique_unique) (use h in simp_all)
  have org: "organization_of m db = Some g"
    by (rule organization_of_unique) (use h in simp_all)
  from h assms have oid: "js_or (params_organizationId req)
      (js_or (query_organizationId req) (body_organizationId req)) = Some oid" and ne: "oid \<noteq> []"
    by simp_all
  from h show "tenantContext db req =
      Inr (req\<lparr>organizationId := Some oid, orgRole := Some (om_role m)\<rparr>)"
    by (simp add: tenantContext_found [OF assms(1) oid ne row org])
next
  assume ok: "tenantContext db req = Inr req'"
  with assms obtain oid' row org where
      o: "orgId = Some oid'" "oid' \<noteq> []"
      and row: "organizationMember_findUnique oid' (userId u) db = Some row"
      and org: "organization_of row db = Some org" "subscriptionStatus org = ACTIVE"
      and r: "req' = req\<lparr>organizationId := Some oid', orgRole := Some (om_role row)\<rparr>"
    by (auto simp: tenantContext_def errorResponse_def Let_def split: option.splits if_splits)
  from organizationMember_findUnique_Some [OF row] organization_of_Some [OF org(1)] o org(2) r
  show "\<exists>oid' row org.
      orgId = Some oid' \<and> oid' \<noteq> [] \<and>
      row \<in> set (organizationMembers db) \<and>
      om_organizationId row = oid' \<and> om_userId row = userId u \<and>
      org \<in> set (organizations db) \<and> org_id org = oid' \<and>
      subscriptionStatus org = ACTIVE \<and>
      organizationId req' = Some oid' \<and> orgRole req' = Some (om_role row)"
    by auto
qed

theorem tenantContext_resolution_witness:
  "user sample_request =
     Some \<lparr>userId = ''u1'', email = ''a@x.com'', jwt_organizationId = None, jwt_role = None\<rparr> \<and>
   tenantContext sample_db sample_request =
     Inl \<lparr>status = 400, code = ''ORG_ID_REQUIRED'', message = ''Organization ID required''\<rparr> \<and>
   \<lparr>om_id = ''m3'', om_organizationId = ''o3'', om_userId = ''u2'', om_role = MEMBER\<rparr>
     \<in> set (organizationMembers sample_db) \<and>
   filter (\<lambda>row. om_organizationId row = ''o3'' \<and> om_userId row = ''u1'')
     (organizationMembers sample_db) = [] \<and>
   tenantContext sample_db (sample_request\<lparr>query_organizationId := Some ''o3''\<rparr>) =
     Inl \<lparr>status = 403, code = ''ORG_ACCESS_DENIED'',
          message = ''Access denied to this organization''\<rparr> \<and>
   \<lparr>om_id = ''m2'', om_organizationId = ''o2'', om_userId = ''u1'', om_role = OWNER\<rparr>
     \<in> set (organizationMembers sample_db) \<and>
   latepay \<in> set (organizations sample_db) \<and> org_id latepay = ''o2'' \<and>
   subscriptionStatus latepay \<noteq> ACTIVE \<and>
   tenantContext sample_db (sample_request\<lparr>params_organizationId := Some ''o2''\<rparr>) =
     Inl \<lparr>status = 403, code = ''ORG_INACTIVE'',
          message = ''Organization subscription is not active''\<rparr> \<and>
   \<lparr>om_id = ''m0'', om_organizationId = ''o1'', om_userId = ''u2'', om_role = GUEST\<rparr>
     \<in> set (organizationMembers sample_db) \<and>
   \<lparr>om_id = ''m1'', om_organizationId = ''o1'', om_userId = ''u1'', om_role = ADMIN\<rparr>
     \<in> set (organizationMembers sample_db) \<and>
   acme \<in> set (organizations sample_db) \<and> org_id acme = ''o1'' \<and>
   subscriptionStatus acme = ACTIVE \<and>
   tenantContext sample_db (sample_request\<lparr>body_organizationId := Some ''o1''\<rparr>) =
     Inr (sample_request\<lparr>body_organizationId := Some ''o1'', organizationId := Some ''o1'',
                          orgRole := Some ADMIN\<rparr>)"
proof -
  let ?u = "\<lparr>userId = ''u1'', email = ''a@x.com'', jwt_organizationId = None, jwt_role = None\<rparr>"
  let ?m0 = "\<lparr>om_id = ''m0'', om_organizationId = ''o1'', om_userId = ''u2'', om_role = GUEST\<rparr>"
  let ?m1 = "\<lparr>om_id = ''m1'', om_organizationId = ''o1'', om_userId = ''u1'', om_role = ADMIN\<rparr>"
  let ?m2 = "\<lparr>om_id = ''m2'', om_organizationId = ''o2'', om_userId = ''u1'', om_role = OWNER\<rparr>"
  have u0: "user sample_request = Some ?u"
    by (simp add: sample_request_def)
  have u3: "user (sample_request\<lparr>query_organizationId := Some ''o3''\<rparr>) = Some ?u"
    by (simp add: sample_request_def)
  have u2: "user (sample_request\<lparr>params_organizationId := Some ''o2''\<rparr>) = Some ?u"
    by (simp add: sample_request_def)
  have u1: "user (sample_request\<lparr>body_organizationId := Some ''o1''\<rparr>) = Some ?u"
    by (simp add: sample_request_def)
  have other3: "\<lparr>om_id = ''m3'', om_organizationId = ''o3'', om_userId = ''u2'', om_role = MEMBER\<rparr>
       \<in> set (organizationMembers sample_db)"
    by (simp add: sample_defs)
  have none3: "filter (\<lambda>row. om_organizationId row = ''o3'' \<and> om_userId row = ''u1'')
       (organizationMembers sample_db) = []"
    by (simp add: sample_defs)
  have rows: "?m0 \<in> set (organizationMembers sample_db)"
      "?m1 \<in> set (organizationMembers sample_db)"
      "?m2 \<in> set (organizationMembers sample_db)"
    by (simp_all add: sample_defs)
  have orgs2: "latepay \<in> set (organizations sample_db)" "org_id latepay = ''o2''"
    by (simp_all add: sample_defs)
  have orgs1: "acme \<in> set (organizations sample_db)" "org_id acme = ''o1''"
    by (simp_all add: sample_defs)
  have s2: "subscriptionStatus latepay \<noteq> ACTIVE" and s1: "subscriptionStatus acme = ACTIVE"
    by (simp_all add: sample_defs)
  note r0 = tenantContext_resolution [OF u0 refl, where db = sample_db]
  note r3 = tenantContext_resolution [OF u3 refl, where db = sample_db and oid = "''o3''"]
  note r2 = tenantContext_resolution [OF u2 refl, where db = sample_db and oid = "''o2''"
              and m = ?m2 and g = latepay]
  note r1 = tenantContext_resolution [OF u1 refl, where db = sample_db and oid = "''o1''"
              and m = ?m1 and g = acme]
  have c0: "tenantContext sample_db sample_request =
     Inl \<lparr>status = 400, code = ''ORG_ID_REQUIRED'', message = ''Organization ID required''\<rparr>"
    using r0 by (simp add: sample_request_def js_or_def)
  have c3: "tenantContext sample_db (sample_request\<lparr>query_organizationId := Some ''o3''\<rparr>) =
     Inl \<lparr>status = 403, code = ''ORG_ACCESS_DENIED'',
          message = ''Access denied to this organization''\<rparr>"
    using r3 by (simp add: sample_defs js_or_def)
  have c2: "tenantContext sample_db (sample_request\<lparr>params_organizationId := Some ''o2''\<rparr>) =
     Inl \<lparr>status = 403, code = ''ORG_INACTIVE'',
          message = ''Organization subscription is not active''\<rparr>"
    using r2 by (simp add: sample_defs js_or_def)
  have c1: "tenantContext sample_db (sample_request\<lparr>body_organizationId := Some ''o1''\<rparr>) =
     Inr (sample_request\<lparr>body_organizationId := Some ''o1'', organizationId := Some ''o1'',
                          orgRole := Some ADMIN\<rparr>)"
    using r1 by (simp add: sample_defs js_or_def)
  have e3: "tenantContext sample_db (sample_request\<lparr>query_organizationId := Some ''o3''\<rparr>) =
     Inl \<lparr>status = 403, code = ''ORG_ACCESS_DENIED'',
          message = ''Access denied to this organization''\<rparr>"
    by (simp add: tenantContext_def errorResponse_def js_or_def Let_def sample_defs store_defs)
  have e1: "tenantContext sample_db (sample_request\<lparr>body_organizationId := Some ''o1''\<rparr>) =
     Inr (sample_request\<lparr>body_organizationId := Some ''o1'', organizationId := Some ''o1'',
                          orgRole := Some ADMIN\<rparr>)"
    by (simp add: tenantContext_def errorResponse_def js_or_def Let_def sample_defs store_defs)
  from c3 e3 c1 e1 show ?thesis
    by (intro conjI u0 c0 other3 none3 c3 rows orgs2 s2 c2 orgs1 s1 c1)
qed

section \<open>Permission gate\<close>

text \<open>
  C4: for a request whose resolved role is \<open>r\<close> and every action \<open>a\<close> of the
  permission table, the gate lets the request through if and only if \<open>r\<close> is in the
  table's list for \<open>a\<close>, and answers 403 \<^verbatim>\<open>PERMISSION_DENIED\<close> otherwise. In
  particular \<^verbatim>\<open>project:delete\<close> is allowed to \<open>OWNER\<close> and \<open>ADMIN\<close> and to no one
  else, and being allowed one action does not carry over to another: \<open>GUEST\<close> may
  \<^verbatim>\<open>project:read\<close> but not \<^verbatim>\<open>project:update\<close>, \<open>MEMBER\<close> may \<^verbatim>\<open>task:delete\<close> but
  not \<^verbatim>\<open>project:delete\<close>.
\<close>

theorem requirePermission_table:
  assumes "orgRole req = Some r"
  shows "(requirePermission a req = Inr req \<longleftrightarrow> r \<in> set (permissions a)) \<and>
         (r \<notin> set (permissions a) \<longrightarrow>
            requirePermission a req =
              Inl \<lparr>status = 403, code = ''PERMISSION_DENIED'',
                   message = ''Insufficient permissions. Required: '' @ permission_key a\<rparr>) \<and>
         (requirePermission project_delete req = Inr req \<longleftrightarrow> r = OWNER \<or> r = ADMIN) \<and>
         set (permissions project_delete) = {OWNER, ADMIN} \<and>
         GUEST \<in> set (permissions project_read) \<and> GUEST \<notin> set (permissions project_update) \<and>
         MEMBER \<in> set (permissions task_delete) \<and> MEMBER \<notin> set (permissions project_delete)"
  using assms
  by (auto simp: requirePermission_def errorResponse_def Let_def)

theorem requirePermission_table_witness:
  "orgRole (sample_request\<lparr>orgRole := Some MEMBER\<rparr>) = Some MEMBER \<and>
   MEMBER \<notin> set (permissions project_delete) \<and>
   requirePermission project_delete (sample_request\<lparr>orgRole := Some MEMBER\<rparr>) =
     Inl \<lparr>status = 403, code = ''PERMISSION_DENIED'',
          message = ''Insufficient permissions. Required: project:delete''\<rparr> \<and>
   MEMBER \<in> set (permissions task_delete) \<and>
   requirePermission task_delete (sample_request\<lparr>orgRole := Some MEMBER\<rparr>) =
     Inr (sample_request\<lparr>orgRole := Some MEMBER\<rparr>)"
proof -
  have h: "orgRole (sample_request\<lparr>orgRole := Some MEMBER\<rparr>) = Some MEMBER"
    by simp
  show ?thesis
    using h requirePermission_table [OF h, of project_delete]
      requirePermission_table [OF h, of task_delete]
    by simp
qed

section \<open>Login and registration\<close>

text \<open>
  C5: a login that fails because no user record matches the email, and a login that
  fails because a user matches but the password does not verify against the stored
  hash, throw the same error, \<^verbatim>\<open>AppError('Invalid credentials', 401,
  'INVALID_CREDENTIALS')\<close>; the caller receives the same code and status in both
  cases, and neither call changes the database.
\<close>

theorem login_failures_indistinguishable:
  assumes "user_findUnique e1 db1 = None"
      and "user_findUnique e2 db2 = Some u"
      and "user_password u = Some stored"
      and "\<not> comparePassword deps p2 stored"
  shows "fst (login deps t1 e1 p1 db1) =
           Inl (AppError ''Invalid credentials'' 401 ''INVALID_CREDENTIALS'') \<and>
         fst (login deps t2 e2 p2 db2) = fst (login deps t1 e1 p1 db1) \<and>
         error_code (fst (login deps t1 e1 p1 db1)) = Some ''INVALID_CREDENTIALS'' \<and>
         error_code (fst (login deps t2 e2 p2 db2)) = Some ''INVALID_CREDENTIALS'' \<and>
         error_status (fst (login deps t1 e1 p1 db1)) = Some 401 \<and>
         error_status (fst (login deps t2 e2 p2 db2)) = Some 401 \<and>
         fst (snd (login deps t1 e1 p1 db1)) = db1 \<and>
         fst (snd (login deps t2 e2 p2 db2)) = db2"
  using assms
  by (simp add: login_def error_code_def error_status_def errorResponse_def Let_def)

theorem login_failures_indistinguishable_witness:
  "user_findUnique ''nobody@x.com'' sample_db = None \<and>
   user_findUnique ''a@x.com'' sample_db = Some alice \<and>
   user_password alice = Some ''h:secret'' \<and>
   \<not> comparePassword sample_deps ''guess'' ''h:secret'' \<and>
   fst (login sample_deps 50 ''nobody@x.com'' ''secret'' sample_db) =
     Inl (AppError ''Invalid credentials'' 401 ''INVALID_CREDENTIALS'') \<and>
   fst (login sample_deps 60 ''a@x.com'' ''guess'' sample_db) =
     Inl (AppError ''Invalid credentials'' 401 ''INVALID_CREDENTIALS'')"
proof -
  have h1: "user_findUnique ''nobody@x.com'' sample_db = None"
    by (simp add: sample_defs store_defs)
  have h2: "user_findUnique ''a@x.com'' sample_db = Some alice"
    by (simp add: sample_defs store_defs)
  have h3: "user_password alice = Some ''h:secret''"
    by (simp add: alice_def)
  have h4: "\<not> comparePassword sample_deps ''guess'' ''h:secret''"
    by (simp add: sample_deps_def)
  show ?thesis
    using h1 h2 h3 h4
      login_failures_indistinguishable [OF h1 h2 h3 h4, of 50 "''secret''" 60]
    by simp
qed

text \<open>
  C10: for a user record whose stored password hash is null, login with that user's
  email and any password throws \<^verbatim>\<open>AppError('Invalid credentials', 401,
  'INVALID_CREDENTIALS')\<close>, the error of an unknown email or a wrong password; the
  database is unchanged, \<^verbatim>\<open>comparePassword\<close> is not called (the list of its calls is
  empty), and the outcome is the same whatever \<^verbatim>\<open>comparePassword\<close> would answer.
\<close>

theorem login_oauth_only_account:
  assumes "user_findUnique e db = Some u"
      and "user_password u = None"
  shows "login deps now e p db =
           (Inl (AppError ''Invalid credentials'' 401 ''INVALID_CREDENTIALS''), db, []) \<and>
         login (deps\<lparr>comparePassword := cmp\<rparr>) now e p db = login deps now e p db \<and>
         error_code (fst (login deps now e p db)) = Some ''INVALID_CREDENTIALS'' \<and>
         error_status (fst (login deps now e p db)) = Some 401"
  using assms
  by (simp add: login_def error_code_def error_status_def errorResponse_def)

theorem login_oauth_only_account_witness:
  "user_findUnique ''b@x.com'' sample_db = Some oauth_bob \<and>
   user_password oauth_bob = None \<and>
   login sample_deps 50 ''b@x.com'' ''anything'' sample_db =
     (Inl (AppError ''Invalid credentials'' 401 ''INVALID_CREDENTIALS''), sample_db, []) \<and>
   login (sample_deps\<lparr>comparePassword := (\<lambda>p h. True)\<rparr>) 50 ''b@x.com'' ''anything'' sample_db =
     (Inl (AppError ''Invalid credentials'' 401 ''INVALID_CREDENTIALS''), sample_db, [])"
proof -
  have h1: "user_findUnique ''b@x.com'' sample_db = Some oauth_bob"
    by (simp add: sample_defs store_defs)
  have h2: "user_password oauth_bob = None"
    by (simp add: oauth_bob_def)
  show ?thesis
    using h1 h2
      login_oauth_only_account [OF h1 h2, of sample_deps 50 "''anything''" "\<lambda>p h. True"]
    by simp
qed

text \<open>
  C6: in every state in which a user record with email \<open>e\<close> exists,
  \<open>register n e p\<close> throws \<^verbatim>\<open>AppError('User with this email already exists', 409,
  'USER_EXISTS')\<close> and leaves the whole database, the user table and the
  refresh-token table included, exactly as it was; being an error, the result carries
  no tokens.
\<close>

theorem register_existing_email:
  assumes "\<exists>u \<in> set (users db). user_email u = e"
  shows "register deps now name e password db =
           (Inl (AppError ''User with this email already exists'' 409 ''USER_EXISTS''), db) \<and>
         users (snd (register deps now name e password db)) = users db \<and>
         refreshTokens (snd (register deps now name e password db)) = refreshTokens db \<and>
         error_code (fst (register deps now name e password db)) = Some ''USER_EXISTS'' \<and>
         error_status (fst (register deps now name e password db)) = Some 409"
proof -
  from assms obtain u where "user_findUnique e db = Some u"
    using user_findUnique_exists by blast
  then show ?thesis
    by (simp add: register_def error_code_def error_status_def errorResponse_def)
qed

theorem register_existing_email_witness:
  "(\<exists>u \<in> set (users sample_db). user_email u = ''a@x.com'') \<and>
   register sample_deps 50 ''Alice Again'' ''a@x.com'' ''pw'' sample_db =
     (Inl (AppError ''User with this email already exists'' 409 ''USER_EXISTS''), sample_db)"
proof -
  have h: "\<exists>u \<in> set (users sample_db). user_email u = ''a@x.com''"
    by (simp add: sample_defs)
  show ?thesis
    using h register_existing_email [OF h, of sample_deps 50 "''Alice Again''" "''pw''"]
    by simp
qed

section \<open>Logout\<close>

text \<open>
  C8: for every refresh token string \<open>t\<close> and every database, \<open>logout t\<close> returns
  the acknowledgement \<^verbatim>\<open>{ message: 'Logged out successfully' }\<close>, also when no row
  matches \<open>t\<close> (and then the database is unchanged); a second \<open>logout t\<close> straight
  after the first returns the same acknowledgement and leaves the database as the
  first call left it.
\<close>

theorem logout_idempotent:
  "fst (logout t db) = Inr \<lparr>logout_message = ''Logged out successfully''\<rparr> \<and>
   fst (logout t (snd (logout t db))) = Inr \<lparr>logout_message = ''Logged out successfully''\<rparr> \<and>
   snd (logout t (snd (logout t db))) = snd (logout t db) \<and>
   (t \<notin> set (tokens db) \<longrightarrow> snd (logout t db) = db)"
proof -
  have "t \<notin> set (tokens db) \<Longrightarrow>
          filter (\<lambda>r. rt_token r \<noteq> t) (refreshTokens db) = refreshTokens db"
    by (rule filter_True) (auto simp: tokens_def)
  then show ?thesis
    by (simp add: logout_def refreshToken_deleteMany_def)
qed

theorem logout_idempotent_witness:
  "''rt:u9'' \<notin> set (tokens sample_db) \<and>
   logout ''rt:u9'' sample_db =
     (Inr \<lparr>logout_message = ''Logged out successfully''\<rparr>, sample_db) \<and>
   ''rt:u1'' \<in> set (tokens sample_db) \<and>
   logout ''rt:u1'' sample_db =
     (Inr \<lparr>logout_message = ''Logged out successfully''\<rparr>, sample_db\<lparr>refreshTokens := []\<rparr>) \<and>
   logout ''rt:u1'' (sample_db\<lparr>refreshTokens := []\<rparr>) =
     (Inr \<lparr>logout_message = ''Logged out successfully''\<rparr>, sample_db\<lparr>refreshTokens := []\<rparr>)"
proof -
  have h: "''rt:u9'' \<notin> set (tokens sample_db)" and h1: "''rt:u1'' \<in> set (tokens sample_db)"
    by (simp_all add: tokens_def sample_defs)
  have s1: "snd (logout ''rt:u1'' sample_db) = sample_db\<lparr>refreshTokens := []\<rparr>"
    by (simp add: logout_def refreshToken_deleteMany_def sample_defs)
  show ?thesis
    using h h1 s1 logout_idempotent [of "''rt:u9''" sample_db]
      logout_idempotent [of "''rt:u1''" sample_db]
    by (simp add: prod_eq_iff)
qed

text \<open>
  C7: after \<open>logout t\<close> has completed, and after any further calls to the service
  none of which stores a row for the string \<open>t\<close> again, \<open>refreshAccessToken t\<close>
  fails with \<^verbatim>\<open>TOKEN_INVALID\<close> at whatever time it runs: it returns no access token.
\<close>

theorem logout_then_refresh_invalid:
  assumes "t \<notin> set (issued deps cs (snd (logout t db)))"
  shows "fst (refreshAccessToken deps now t (run deps cs (snd (logout t db)))) =
           Inl (AppError ''Invalid or expired refresh token'' 401 ''TOKEN_INVALID'') \<and>
         error_code (fst (refreshAccessToken deps now t (run deps cs (snd (logout t db))))) =
           Some ''TOKEN_INVALID''"
proof -
  have "t \<notin> set (tokens (snd (logout t db)))"
    by (simp add: tokens_logout)
  with assms have "t \<notin> set (tokens (run deps cs (snd (logout t db))))"
    by (rule tokens_run [rotated])
  then show ?thesis
    by (simp add: refreshAccessToken_without_row error_code_def errorResponse_def)
qed

theorem logout_then_refresh_invalid_witness:
  "''rt:u1'' \<notin> set (issued sample_deps
       [(60, Refresh ''rt:u1''), (70, Register ''Carol'' ''c@x.com'' ''pw''),
        (80, Login ''a@x.com'' ''guess'')]
       (snd (logout ''rt:u1'' sample_db))) \<and>
   fst (refreshAccessToken sample_deps 90 ''rt:u1'' sample_db) =
     Inr \<lparr>accessToken = ''at:u1'', refreshToken = ''rt:u1''\<rparr> \<and>
   fst (refreshAccessToken sample_deps 90 ''rt:u1''
         (run sample_deps
            [(60, Refresh ''rt:u1''), (70, Register ''Carol'' ''c@x.com'' ''pw''),
             (80, Login ''a@x.com'' ''guess'')]
            (snd (logout ''rt:u1'' sample_db)))) =
     Inl (AppError ''Invalid or expired refresh token'' 401 ''TOKEN_INVALID'')"
proof -
  let ?cs = "[(60, Refresh ''rt:u1''), (70, Register ''Carol'' ''c@x.com'' ''pw''),
              (80, Login ''a@x.com'' ''guess'')]"
  have i: "issued sample_deps ?cs (snd (logout ''rt:u1'' sample_db)) = [''rt:cc'']"
    by (simp add: new_tokens_def tokens_def logout_def refreshAccessToken_def
          refreshAccessToken_try_def register_def login_def Let_def sample_defs store_defs)
  have h: "''rt:u1'' \<notin> set (issued sample_deps ?cs (snd (logout ''rt:u1'' sample_db)))"
    unfolding i by simp
  have before: "fst (refreshAccessToken sample_deps 90 ''rt:u1'' sample_db) =
     Inr \<lparr>accessToken = ''at:u1'', refreshToken = ''rt:u1''\<rparr>"
    by (simp add: refreshAccessToken_def refreshAccessToken_try_def sample_defs store_defs)
  show ?thesis
    using h before logout_then_refresh_invalid [OF h, of 90] by simp
qed

end
